theory Spec2Isabelle
  imports Main "HOL-Library.AList"
begin

section \<open>Values shared by the two services\<close>

text \<open>
  Exceptions that the modelled code can raise. \<open>QuotaExceededError\<close> is what
  \<^verbatim>\<open>localStorage.setItem\<close> throws when the browser refuses the write,
  \<open>Rejected\<close> is a rejected promise of the remote profile source, \<open>NotFound\<close> a
  lookup error of the profile cache and \<open>TypeError\<close> a property access on
  \<^verbatim>\<open>undefined\<close>.
\<close>

datatype exn = QuotaExceededError | Rejected string | NotFound string | TypeError

text \<open>
  Modelled from the spec: the declaration of \<^verbatim>\<open>IUnauthenticatedUser\<close>
  (\<^verbatim>\<open>./unauthenticated-user\<close>) is not among the sources. The source reads its
  \<^verbatim>\<open>npub\<close> property and mentions the optional \<^verbatim>\<open>nsecEncrypted\<close>; the spec
  describes an account as a public identifier plus an encrypted-secret blob.
\<close>

record IUnauthenticatedUser =
  npub :: string
  nsecEncrypted :: "string option"

section \<open>Plain JavaScript objects, JSON text and \<^verbatim>\<open>localStorage\<close>\<close>

text \<open>
  \<^verbatim>\<open>accounts: { [npub: string]: IUnauthenticatedUser }\<close> is a plain object. Its own
  string keys are enumerated in insertion order (the keys are npub strings, never array
  indices), assigning an existing key keeps the key's position, and \<^verbatim>\<open>delete\<close>
  removes the key. The object is therefore an association list: \<^verbatim>\<open>o[k] = v\<close> is
  \<^const>\<open>AList.update\<close>, \<^verbatim>\<open>delete o[k]\<close> is \<^const>\<open>AList.delete\<close>.
\<close>

type_synonym 'v js_object = "(string \<times> 'v) list"

definition Object_values :: "'v js_object \<Rightarrow> 'v list" where
  "Object_values obj = map snd obj"

text \<open>
  A JSON text of an object is the sequence of its members as written.
  \<^verbatim>\<open>JSON.stringify\<close> writes the own properties in enumeration order;
  \<^verbatim>\<open>JSON.parse\<close> assigns the members one after the other to a fresh object, so a
  repeated name keeps its first position and its last value.
\<close>

type_synonym 'v json_text = "(string \<times> 'v) list"

definition JSON_stringify :: "'v js_object \<Rightarrow> 'v json_text" where
  "JSON_stringify obj = obj"

definition JSON_parse :: "'v json_text \<Rightarrow> 'v js_object" where
  "JSON_parse txt = foldl (\<lambda>obj (k, v). AList.update k v obj) [] txt"

text \<open>
  The durable key-value storage. \<^verbatim>\<open>getItem\<close> answers \<^verbatim>\<open>null\<close> (here \<open>None\<close>)
  for a key never written. \<^verbatim>\<open>setItem\<close> either stores the value or throws
  \<open>QuotaExceededError\<close>; whether the browser accepts the new contents is the
  storage's \<open>quota\<close>, an arbitrary predicate on the contents the write would produce
  (a disabled storage accepts nothing).
\<close>

record Storage =
  items :: "string \<rightharpoonup> IUnauthenticatedUser json_text"
  quota :: "(string \<rightharpoonup> IUnauthenticatedUser json_text) \<Rightarrow> bool"

definition getItem :: "Storage \<Rightarrow> string \<Rightarrow> IUnauthenticatedUser json_text option" where
  "getItem st k = items st k"

definition setItem :: "Storage \<Rightarrow> string \<Rightarrow> IUnauthenticatedUser json_text \<Rightarrow> exn + Storage" where
  "setItem st k v =
     (if quota st ((items st)(k \<mapsto> v)) then Inr (st\<lparr>items := (items st)(k \<mapsto> v)\<rparr>)
      else Inl QuotaExceededError)"

section \<open>\<^verbatim>\<open>BehaviorSubject\<close>\<close>

text \<open>
  An rxjs \<^verbatim>\<open>BehaviorSubject\<close> holds its latest value and hands it to every new
  subscriber at once. \<open>published\<close> records, oldest first, the values given to
  \<^verbatim>\<open>next\<close>, that is, what the subscribers were sent after the initial value.
\<close>

record 'a BehaviorSubject =
  latest :: 'a
  published :: "'a list"

definition new_BehaviorSubject :: "'a \<Rightarrow> 'a BehaviorSubject" where
  "new_BehaviorSubject v = \<lparr>latest = v, published = []\<rparr>"

definition subject_next :: "'a \<Rightarrow> 'a BehaviorSubject \<Rightarrow> 'a BehaviorSubject" where
  "subject_next v s = \<lparr>latest = v, published = published s @ [v]\<rparr>"

text \<open>The first value a subscriber receives when it subscribes.\<close>

definition subscribe :: "'a BehaviorSubject \<Rightarrow> 'a" where
  "subscribe s = latest s"

section \<open>\<^verbatim>\<open>NostrSecretStatefull\<close>: the account secret store\<close>

text \<open>The fields of an instance (\<^verbatim>\<open>nostr-secret.statefull.ts\<close>, lines 10-12 and 26).\<close>

record NostrSecretStatefull =
  accounts :: "IUnauthenticatedUser js_object"
  accountsSubject :: "IUnauthenticatedUser list BehaviorSubject"

definition accounts_key :: string where
  "accounts_key = ''NostrSecretStatefull_accounts''"

text \<open>
  The property initialisers, which run before the constructor's body:
  \<^verbatim>\<open>accounts = JSON.parse(localStorage.getItem(key) || '{}')\<close> and
  \<^verbatim>\<open>accountsSubject = new BehaviorSubject(Object.values(this.accounts))\<close>.
\<close>

definition initialise :: "Storage \<Rightarrow> NostrSecretStatefull" where
  "initialise st =
     (let accs = JSON_parse (case getItem st accounts_key of None \<Rightarrow> [] | Some txt \<Rightarrow> txt)
      in \<lparr>accounts = accs, accountsSubject = new_BehaviorSubject (Object_values accs)\<rparr>)"

text \<open>
  The constructor's body keeps the first instance in the static field \<^verbatim>\<open>instance\<close>
  and returns that one. The result is the returned object and the new static field.
\<close>

definition constructor ::
  "Storage \<Rightarrow> NostrSecretStatefull option \<Rightarrow> NostrSecretStatefull \<times> NostrSecretStatefull option" where
  "constructor st inst =
     (let this_obj = initialise st
      in case inst of None \<Rightarrow> (this_obj, Some this_obj) | Some i \<Rightarrow> (i, Some i))"

section \<open>Profiles and the collaborators injected into the services\<close>

text \<open>
  Modelled from the spec: \<^verbatim>\<open>DataLoadType\<close>, \<^verbatim>\<open>NostrUser\<close>, \<^verbatim>\<open>IProfile\<close> and
  the nostr-tools \<^verbatim>\<open>Event\<close> are declared outside the sources. The source reads
  \<^verbatim>\<open>indexedProfile.load\<close>, compares it with \<^verbatim>\<open>DataLoadType.LAZY_LOADED\<close>, reads
  \<^verbatim>\<open>user.nostrPublic\<close> and writes \<^verbatim>\<open>profile.user\<close>; the spec names the three load
  states and describes a profile as an identifier, opaque display data, an optional
  user handle and the load state.
\<close>

datatype DataLoadType = UNRESOLVED | LAZY_LOADED | EAGER_LOADED

record NostrUser =
  nsec :: string
  nostrPublic :: string

record IProfile =
  profile_npub :: string
  load :: DataLoadType
  display :: string
  user :: "NostrUser option"

record Event =
  pubkey :: string
  content :: string

text \<open>
  Modelled from the spec: what the profile cache (\<^verbatim>\<open>profile.cache.ts\<close>, not among the
  sources) does for an identifier it has never seen. The spec leaves the choice between
  a lookup error and a pre-seeded \<open>UNRESOLVED\<close> placeholder, so the policy is a
  parameter.
\<close>

datatype miss_policy = RaiseNotFound | SeedPlaceholder

text \<open>
  The collaborators that Angular injects and whose code is not part of the sources:
  the remote profile source (\<^verbatim>\<open>ProfileApi.loadProfiles\<close>, a promise that resolves to
  events or rejects), the identity converter, the encryption routine
  (\<^verbatim>\<open>ProfileEncrypt.encryptAccount\<close>, an account or \<^verbatim>\<open>null\<close>), the constructor of
  \<^verbatim>\<open>NostrUser\<close>, and the cache's policy for unseen identifiers. Every theorem below
  holds for all of them unless it says otherwise.
\<close>

record collaborators =
  profileApi_loadProfiles :: "string list \<Rightarrow> exn + Event list"
  castPubkeyToNostrPublic :: "string \<Rightarrow> string"
  encryptAccount :: "IProfile \<Rightarrow> string option \<Rightarrow> IUnauthenticatedUser option"
  new_NostrUser :: "string \<Rightarrow> exn + NostrUser"
  on_miss :: miss_policy

text \<open>
  The state of the process: the browser's storage, the singleton account store, the
  static map \<^verbatim>\<open>ProfileCache.profiles\<close>, and a log of the identifier lists handed to
  the remote profile source, oldest first. A cache entry is one object that lives as
  long as the process and is mutated in place, so the entry's key identifies the object.
\<close>

record world =
  localStorage :: Storage
  nostrSecretStatefull :: NostrSecretStatefull
  profiles :: "string \<rightharpoonup> IProfile"
  fetches :: "string list list"

subsection \<open>Methods of \<^verbatim>\<open>NostrSecretStatefull\<close>\<close>

definition createAccount ::
  "collaborators \<Rightarrow> world \<Rightarrow> IProfile \<Rightarrow> string option \<Rightarrow> IUnauthenticatedUser option \<times> world" where
  "createAccount deps w profile pin =
     (case encryptAccount deps profile pin of
        None \<Rightarrow> (None, w)
      | Some unauthenticated \<Rightarrow> (Some unauthenticated, w))"

text \<open>
  \<^verbatim>\<open>update\<close> writes the storage first; when \<^verbatim>\<open>setItem\<close> throws, the exception leaves
  the method before \<^verbatim>\<open>accountsSubject.next\<close> is reached.
\<close>

definition update :: "world \<Rightarrow> (exn + unit) \<times> world" where
  "update w =
     (let this_obj = nostrSecretStatefull w
      in case setItem (localStorage w) accounts_key (JSON_stringify (accounts this_obj)) of
           Inl e \<Rightarrow> (Inl e, w)
         | Inr st \<Rightarrow>
             (Inr (),
              w\<lparr>localStorage := st,
                nostrSecretStatefull := this_obj
                  \<lparr>accountsSubject :=
                     subject_next (Object_values (accounts this_obj)) (accountsSubject this_obj)\<rparr>\<rparr>))"

definition addAccount :: "world \<Rightarrow> IUnauthenticatedUser \<Rightarrow> (exn + unit) \<times> world" where
  "addAccount w unauthenticated =
     update (w\<lparr>nostrSecretStatefull := (nostrSecretStatefull w)
        \<lparr>accounts := AList.update (npub unauthenticated) unauthenticated
                      (accounts (nostrSecretStatefull w))\<rparr>\<rparr>)"

definition removeAccount :: "world \<Rightarrow> IUnauthenticatedUser \<Rightarrow> (exn + unit) \<times> world" where
  "removeAccount w profile =
     update (w\<lparr>nostrSecretStatefull := (nostrSecretStatefull w)
        \<lparr>accounts := AList.delete (npub profile) (accounts (nostrSecretStatefull w))\<rparr>\<rparr>)"

subsection \<open>\<^verbatim>\<open>ProfileCache\<close>\<close>

text \<open>
  Modelled from the spec: \<^verbatim>\<open>profile.cache.ts\<close> is not among the sources; only the
  static map \<^verbatim>\<open>ProfileCache.profiles\<close> is visible, through \<^verbatim>\<open>ProfileProxy.load\<close>.
  \<^verbatim>\<open>isEagerLoaded\<close> is a query: true iff the entry exists and its load state is
  \<open>EAGER_LOADED\<close>.
\<close>

definition isEagerLoaded :: "world \<Rightarrow> string \<Rightarrow> bool" where
  "isEagerLoaded w n =
     (case profiles w n of None \<Rightarrow> False | Some p \<Rightarrow> load p = EAGER_LOADED)"

text \<open>
  Modelled from the spec: the upsert of one raw record by \<^verbatim>\<open>ProfileCache.cache\<close>,
  which is not among the sources. The record is cast into a profile; it is the answer to
  an explicit request, so the entry becomes \<open>EAGER_LOADED\<close>; an existing entry is
  mutated in place (its display data is overwritten, its user handle stays).
\<close>

definition cache_event ::
  "collaborators \<Rightarrow> (string \<rightharpoonup> IProfile) \<Rightarrow> Event \<Rightarrow> (string \<rightharpoonup> IProfile)" where
  "cache_event deps m ev =
     (let n = castPubkeyToNostrPublic deps (pubkey ev)
      in case m n of
           None \<Rightarrow>
             m(n \<mapsto> \<lparr>profile_npub = n, load = EAGER_LOADED, display = content ev, user = None\<rparr>)
         | Some p \<Rightarrow> m(n \<mapsto> p\<lparr>load := EAGER_LOADED, display := content ev\<rparr>))"

text \<open>
  Modelled from the spec: \<^verbatim>\<open>ProfileCache.cache\<close> upserts the records of the batch
  in order.
\<close>

definition ProfileCache_cache :: "collaborators \<Rightarrow> world \<Rightarrow> Event list \<Rightarrow> world" where
  "ProfileCache_cache deps w events = w\<lparr>profiles := foldl (cache_event deps) (profiles w) events\<rparr>"

text \<open>
  Modelled from the spec: \<^verbatim>\<open>ProfileCache.get\<close>, which is not among the sources,
  returns the cached profile; for an identifier never seen it raises the lookup error or
  seeds the \<open>UNRESOLVED\<close> placeholder, as the policy says.
\<close>

definition ProfileCache_get :: "collaborators \<Rightarrow> world \<Rightarrow> string \<Rightarrow> (exn + IProfile) \<times> world" where
  "ProfileCache_get deps w n =
     (case profiles w n of
        Some p \<Rightarrow> (Inr p, w)
      | None \<Rightarrow>
          (case on_miss deps of
             RaiseNotFound \<Rightarrow> (Inl (NotFound n), w)
           | SeedPlaceholder \<Rightarrow>
               (let p = \<lparr>profile_npub = n, load = UNRESOLVED, display = [], user = None\<rparr>
                in (Inr p, w\<lparr>profiles := (profiles w)(n \<mapsto> p)\<rparr>))))"

subsection \<open>Methods of \<^verbatim>\<open>ProfileProxy\<close>\<close>

text \<open>
  \<^verbatim>\<open>[...new Set(xs)]\<close>: the constructor adds the elements one by one, a \<^verbatim>\<open>Set\<close>
  ignores an element it already holds and iterates in insertion order.
\<close>

definition Set_add :: "'a list \<Rightarrow> 'a \<Rightarrow> 'a list" where
  "Set_add s x = (if x \<in> set s then s else s @ [x])"

definition new_Set :: "'a list \<Rightarrow> 'a list" where
  "new_Set xs = foldl Set_add [] xs"

text \<open>
  \<^verbatim>\<open>npubs.map(npub => this.profileCache.get(npub))\<close>: the lookups run left to right;
  the first one that throws ends the \<^verbatim>\<open>map\<close>.
\<close>

fun map_get :: "collaborators \<Rightarrow> world \<Rightarrow> string list \<Rightarrow> (exn + IProfile list) \<times> world" where
  "map_get deps w [] = (Inr [], w)"
| "map_get deps w (n # ns) =
     (case ProfileCache_get deps w n of
        (Inl e, w1) \<Rightarrow> (Inl e, w1)
      | (Inr p, w1) \<Rightarrow>
          (case map_get deps w1 ns of
             (Inl e, w2) \<Rightarrow> (Inl e, w2)
           | (Inr ps, w2) \<Rightarrow> (Inr (p # ps), w2)))"

text \<open>
  \<^verbatim>\<open>forceProfileReload\<close> (lines 90-94). The call of the remote source is logged; a
  rejected promise leaves the method at the \<^verbatim>\<open>await\<close>.
\<close>

definition forceProfileReload ::
  "collaborators \<Rightarrow> world \<Rightarrow> string list \<Rightarrow> (exn + IProfile list) \<times> world" where
  "forceProfileReload deps w npubs =
     (let w1 = w\<lparr>fetches := fetches w @ [npubs]\<rparr>
      in case profileApi_loadProfiles deps npubs of
           Inl e \<Rightarrow> (Inl e, w1)
         | Inr events \<Rightarrow> map_get deps (ProfileCache_cache deps w1 events) npubs)"

text \<open>\<^verbatim>\<open>loadProfiles(...npubss)\<close> (lines 77-83); \<^verbatim>\<open>flat(1)\<close> is \<^const>\<open>concat\<close>.\<close>

definition loadProfiles ::
  "collaborators \<Rightarrow> world \<Rightarrow> string list list \<Rightarrow> (exn + IProfile list) \<times> world" where
  "loadProfiles deps w npubss =
     (let npubs = new_Set (concat npubss);
          notLoaded = filter (\<lambda>n. \<not> isEagerLoaded w n) npubs
      in forceProfileReload deps w notLoaded)"

text \<open>
  \<^verbatim>\<open>loadProfile\<close> (lines 85-88): \<^verbatim>\<open>npubs[0]\<close> of an empty array is \<^verbatim>\<open>undefined\<close>,
  here \<open>None\<close>.
\<close>

definition loadProfile ::
  "collaborators \<Rightarrow> world \<Rightarrow> string \<Rightarrow> (exn + IProfile option) \<times> world" where
  "loadProfile deps w n =
     (case loadProfiles deps w [[n]] of
        (Inl e, w1) \<Rightarrow> (Inl e, w1)
      | (Inr ps, w1) \<Rightarrow> (Inr (case ps of [] \<Rightarrow> None | p # _ \<Rightarrow> Some p), w1))"

text \<open>
  \<^verbatim>\<open>load\<close> (lines 49-62) is overloaded on the shape of its argument; the argument and
  the resolved value are tagged accordingly.
\<close>

datatype load_argument = Npub string | Npubs "string list"

datatype load_result = Profile "IProfile option" | Profiles "IProfile list"

fun ProfileProxy_load ::
  "collaborators \<Rightarrow> world \<Rightarrow> load_argument \<Rightarrow> (exn + load_result) \<times> world" where
  "ProfileProxy_load deps w (Npub n) =
     (case profiles w n of
        None \<Rightarrow> map_prod (map_sum id Profile) id (loadProfile deps w n)
      | Some indexedProfile \<Rightarrow>
          if load indexedProfile = LAZY_LOADED
          then map_prod (map_sum id Profile) id (loadProfile deps w n)
          else (Inr (Profile (Some indexedProfile)), w))"
| "ProfileProxy_load deps w (Npubs ns) =
     map_prod (map_sum id Profiles) id (loadProfiles deps w [ns])"

definition loadFromPubKey ::
  "collaborators \<Rightarrow> world \<Rightarrow> string \<Rightarrow> (exn + IProfile option) \<times> world" where
  "loadFromPubKey deps w pk = loadProfile deps w (castPubkeyToNostrPublic deps pk)"

text \<open>
  \<^verbatim>\<open>loadAccount\<close> (lines 68-75). The awaited profile is the cache's object for
  \<^verbatim>\<open>user.nostrPublic\<close> (lemma \<open>load_Npub_entry\<close> below), so
  \<^verbatim>\<open>profile.user = user\<close> writes into the cache entry; on \<^verbatim>\<open>undefined\<close> the
  assignment throws. \<^verbatim>\<open>load\<close> of a string never resolves to an array; that branch
  is there for totality only.
\<close>

definition loadAccount ::
  "collaborators \<Rightarrow> world \<Rightarrow> string \<Rightarrow> string \<Rightarrow> (exn + IUnauthenticatedUser option) \<times> world" where
  "loadAccount deps w secret pin =
     (case new_NostrUser deps secret of
        Inl e \<Rightarrow> (Inl e, w)
      | Inr u \<Rightarrow>
          (case ProfileProxy_load deps w (Npub (nostrPublic u)) of
             (Inl e, w1) \<Rightarrow> (Inl e, w1)
           | (Inr (Profiles _), w1) \<Rightarrow> (Inl TypeError, w1)
           | (Inr (Profile None), w1) \<Rightarrow> (Inl TypeError, w1)
           | (Inr (Profile (Some profile)), w1) \<Rightarrow>
               (let profile' = profile\<lparr>user := Some u\<rparr>;
                    w2 = w1\<lparr>profiles := (profiles w1)(nostrPublic u \<mapsto> profile')\<rparr>;
                    (account, w3) = createAccount deps w2 profile' (Some pin)
                in (Inr account, w3))))"

section \<open>Concrete storages, collaborators and states\<close>

text \<open>Inputs at which the theorems below are instantiated and the code is evaluated.\<close>

definition open_storage :: Storage where
  "open_storage = \<lparr>items = Map.empty, quota = (\<lambda>_. True)\<rparr>"

definition full_storage :: Storage where
  "full_storage = \<lparr>items = Map.empty, quota = (\<lambda>_. False)\<rparr>"

definition alice :: IUnauthenticatedUser where
  "alice = \<lparr>npub = ''npub1alice'', nsecEncrypted = Some ''enc''\<rparr>"

definition seeded_storage :: Storage where
  "seeded_storage = \<lparr>items = [accounts_key \<mapsto> [(''npub1alice'', alice)]], quota = (\<lambda>_. True)\<rparr>"

text \<open>The process right after the first construction of the store, with an empty cache.\<close>

definition fresh_world :: "Storage \<Rightarrow> world" where
  "fresh_world st =
     \<lparr>localStorage = st, nostrSecretStatefull = fst (constructor st None),
      profiles = Map.empty, fetches = []\<rparr>"

definition fetched_event :: "string \<Rightarrow> Event" where
  "fetched_event n = \<lparr>pubkey = n, content = ''fetched''\<rparr>"

text \<open>
  A remote source that answers every identifier with one record, an identity
  converter that leaves the key as it is, an encryption that produces no account.
\<close>

definition answering :: collaborators where
  "answering =
     \<lparr>profileApi_loadProfiles = (\<lambda>ns. Inr (map fetched_event ns)),
      castPubkeyToNostrPublic = (\<lambda>pk. pk),
      encryptAccount = (\<lambda>p pin. None),
      new_NostrUser = (\<lambda>s. Inr \<lparr>nsec = s, nostrPublic = ''npub1'' @ s\<rparr>),
      on_miss = RaiseNotFound\<rparr>"

text \<open>The same collaborators with a remote source that rejects every request.\<close>

definition offline :: collaborators where
  "offline = answering\<lparr>profileApi_loadProfiles := (\<lambda>ns. Inl (Rejected ''offline''))\<rparr>"

text \<open>The state the process reaches when \<^verbatim>\<open>loadProfiles(['p1'])\<close> has resolved.\<close>

definition p1_loaded :: world where
  "p1_loaded = snd (loadProfiles answering (fresh_world open_storage) [[''p1'']])"

section \<open>The account secret store\<close>

subsection \<open>What \<^verbatim>\<open>update\<close> does\<close>

lemma update_fail:
  "setItem (localStorage w) accounts_key (JSON_stringify (accounts (nostrSecretStatefull w))) = Inl e
   \<Longrightarrow> update w = (Inl e, w)"
  by (simp add: update_def)

lemma update_accounts:
  "accounts (nostrSecretStatefull (snd (update w))) = accounts (nostrSecretStatefull w)"
  by (simp add: update_def Let_def split: sum.splits)

lemma update_Inr_latest:
  "fst (update w) = Inr () \<Longrightarrow>
   latest (accountsSubject (nostrSecretStatefull (snd (update w)))) =
   Object_values (accounts (nostrSecretStatefull w))"
  by (simp add: update_def Let_def subject_next_def split: sum.splits)

lemma setItem_Inr_getItem: "setItem st k v = Inr st' \<Longrightarrow> getItem st' k = Some v"
  by (auto simp: setItem_def getItem_def split: if_splits)

lemma update_Inr_stored:
  "fst (update w) = Inr () \<Longrightarrow>
   getItem (localStorage (snd (update w))) accounts_key =
   Some (JSON_stringify (accounts (nostrSecretStatefull w)))"
  by (auto simp: update_def Let_def split: sum.splits dest: setItem_Inr_getItem)

lemma foldl_update_nonempty:
  "acc \<noteq> [] \<or> ms \<noteq> [] \<Longrightarrow> foldl (\<lambda>obj (k, v). AList.update k v obj) acc ms \<noteq> []"
  by (induction ms arbitrary: acc) (auto simp: split_beta)

lemma JSON_parse_nonempty: "ms \<noteq> [] \<Longrightarrow> JSON_parse ms \<noteq> []"
  by (simp add: JSON_parse_def foldl_update_nonempty)

text \<open>The states used as instances, evaluated.\<close>

lemma fresh_world_open:
  "fresh_world open_storage =
     \<lparr>localStorage = open_storage,
      nostrSecretStatefull = \<lparr>accounts = [], accountsSubject = \<lparr>latest = [], published = []\<rparr>\<rparr>,
      profiles = Map.empty, fetches = []\<rparr>"
  by (simp add: fresh_world_def constructor_def initialise_def Let_def getItem_def open_storage_def
      JSON_parse_def new_BehaviorSubject_def Object_values_def)

lemma fresh_world_full:
  "fresh_world full_storage =
     \<lparr>localStorage = full_storage,
      nostrSecretStatefull = \<lparr>accounts = [], accountsSubject = \<lparr>latest = [], published = []\<rparr>\<rparr>,
      profiles = Map.empty, fetches = []\<rparr>"
  by (simp add: fresh_world_def constructor_def initialise_def Let_def getItem_def full_storage_def
      JSON_parse_def new_BehaviorSubject_def Object_values_def)

subsection \<open>Claims about the store\<close>

text \<open>
  C5. If the durable write during \<^verbatim>\<open>addAccount\<close> or \<^verbatim>\<open>removeAccount\<close> fails
  (\<^verbatim>\<open>setItem\<close> throws on the serialised, already mutated map), the call fails with
  that error and publishes nothing: the subject, and with it the list of published
  snapshots, is the one from before the call, and the storage is unchanged.
\<close>

theorem failed_write_publishes_nothing:
  "(setItem (localStorage w) accounts_key
      (JSON_stringify (AList.update (npub a) a (accounts (nostrSecretStatefull w)))) = Inl e \<longrightarrow>
      fst (addAccount w a) = Inl e \<and>
      accountsSubject (nostrSecretStatefull (snd (addAccount w a))) =
        accountsSubject (nostrSecretStatefull w) \<and>
      localStorage (snd (addAccount w a)) = localStorage w) \<and>
   (setItem (localStorage w) accounts_key
      (JSON_stringify (AList.delete (npub a) (accounts (nostrSecretStatefull w)))) = Inl e \<longrightarrow>
      fst (removeAccount w a) = Inl e \<and>
      accountsSubject (nostrSecretStatefull (snd (removeAccount w a))) =
        accountsSubject (nostrSecretStatefull w) \<and>
      localStorage (snd (removeAccount w a)) = localStorage w)"
  by (simp add: addAccount_def removeAccount_def update_fail)

text \<open>An instance: a storage that accepts no write, and the account \<open>alice\<close>.\<close>

theorem failed_write_publishes_nothing_witness:
  "setItem (localStorage (fresh_world full_storage)) accounts_key
     (JSON_stringify (AList.update (npub alice) alice
        (accounts (nostrSecretStatefull (fresh_world full_storage))))) = Inl QuotaExceededError \<and>
   setItem (localStorage (fresh_world full_storage)) accounts_key
     (JSON_stringify (AList.delete (npub alice)
        (accounts (nostrSecretStatefull (fresh_world full_storage))))) = Inl QuotaExceededError \<and>
   fst (addAccount (fresh_world full_storage) alice) = Inl QuotaExceededError \<and>
   published (accountsSubject (nostrSecretStatefull (snd (addAccount (fresh_world full_storage) alice)))) = [] \<and>
   fst (removeAccount (fresh_world full_storage) alice) = Inl QuotaExceededError \<and>
   published (accountsSubject (nostrSecretStatefull (snd (removeAccount (fresh_world full_storage) alice)))) = []"
proof -
  have add_fails: "setItem (localStorage (fresh_world full_storage)) accounts_key
     (JSON_stringify (AList.update (npub alice) alice
        (accounts (nostrSecretStatefull (fresh_world full_storage))))) = Inl QuotaExceededError"
    unfolding fresh_world_full by (simp add: setItem_def full_storage_def)
  have remove_fails: "setItem (localStorage (fresh_world full_storage)) accounts_key
     (JSON_stringify (AList.delete (npub alice)
        (accounts (nostrSecretStatefull (fresh_world full_storage))))) = Inl QuotaExceededError"
    unfolding fresh_world_full by (simp add: setItem_def full_storage_def)
  have before: "published (accountsSubject (nostrSecretStatefull (fresh_world full_storage))) = []"
    by (simp add: fresh_world_full)
  show ?thesis
    using failed_write_publishes_nothing
      [where w = "fresh_world full_storage" and a = alice and e = QuotaExceededError]
      add_fails remove_fails before
    by metis
qed

text \<open>
  C6. \<^verbatim>\<open>createAccount(profile, pin)\<close> leaves the whole state (the in-memory map, the
  durable blob and the stream among it) unchanged and returns what the encryption
  collaborator returns, so it returns \<^verbatim>\<open>null\<close> exactly when the collaborator
  produces no account. The two mutating operations never return \<^verbatim>\<open>null\<close>: they
  return normally (\<^verbatim>\<open>void\<close>) or signal an error.
\<close>

theorem createAccount_delegates:
  "snd (createAccount deps w profile pin) = w \<and>
   fst (createAccount deps w profile pin) = encryptAccount deps profile pin \<and>
   (fst (createAccount deps w profile pin) = None) = (encryptAccount deps profile pin = None) \<and>
   (fst (addAccount w a) = Inr () \<or> (\<exists>e. fst (addAccount w a) = Inl e)) \<and>
   (fst (removeAccount w a) = Inr () \<or> (\<exists>e. fst (removeAccount w a) = Inl e))"
proof -
  have "createAccount deps w profile pin = (encryptAccount deps profile pin, w)"
    by (simp add: createAccount_def split: option.splits)
  moreover have "fst (addAccount w a) = Inr () \<or> (\<exists>e. fst (addAccount w a) = Inl e)"
    by (cases "fst (addAccount w a)") simp_all
  moreover have "fst (removeAccount w a) = Inr () \<or> (\<exists>e. fst (removeAccount w a) = Inl e)"
    by (cases "fst (removeAccount w a)") simp_all
  ultimately show ?thesis by simp
qed

text \<open>
  C7. When \<^verbatim>\<open>addAccount(A)\<close> is followed by \<^verbatim>\<open>removeAccount(A)\<close>, the registry,
  which held A in between, has no entry for A's identifier afterwards, and once the
  removal has returned, the blob in the durable storage is the serialised registry and
  has no entry for A's identifier either.
\<close>

theorem add_then_remove_account:
  assumes "addAccount w a = (r1, w1)" and "removeAccount w1 a = (r2, w2)"
  shows "map_of (accounts (nostrSecretStatefull w1)) (npub a) = Some a \<and>
         npub a \<notin> fst ` set (accounts (nostrSecretStatefull w2)) \<and>
         (r2 = Inr () \<longrightarrow>
            getItem (localStorage w2) accounts_key =
              Some (JSON_stringify (accounts (nostrSecretStatefull w2))) \<and>
            (\<exists>blob. getItem (localStorage w2) accounts_key = Some blob \<and>
                    npub a \<notin> fst ` set blob))"
proof -
  let ?added = "w\<lparr>nostrSecretStatefull := (nostrSecretStatefull w)
        \<lparr>accounts := AList.update (npub a) a (accounts (nostrSecretStatefull w))\<rparr>\<rparr>"
  let ?deleted = "w1\<lparr>nostrSecretStatefull := (nostrSecretStatefull w1)
        \<lparr>accounts := AList.delete (npub a) (accounts (nostrSecretStatefull w1))\<rparr>\<rparr>"
  have "accounts (nostrSecretStatefull w1) =
      AList.update (npub a) a (accounts (nostrSecretStatefull w))"
    using assms(1) update_accounts[of ?added] by (simp add: addAccount_def)
  then have present: "map_of (accounts (nostrSecretStatefull w1)) (npub a) = Some a"
    by (simp add: update_conv')
  have acc: "accounts (nostrSecretStatefull w2) =
      AList.delete (npub a) (accounts (nostrSecretStatefull w1))"
    using assms(2) update_accounts[of ?deleted] by (simp add: removeAccount_def)
  have absent: "npub a \<notin> fst ` set (accounts (nostrSecretStatefull w2))"
    unfolding acc by (rule delete_notin_dom)
  have stored: "getItem (localStorage w2) accounts_key =
      Some (JSON_stringify (accounts (nostrSecretStatefull w2)))" if "r2 = Inr ()"
    using that assms(2) update_Inr_stored[of ?deleted] by (simp add: removeAccount_def acc)
  show ?thesis using present absent stored by (auto simp: JSON_stringify_def)
qed

text \<open>An instance: \<open>alice\<close> added to and removed from a fresh store on a working storage.\<close>

theorem add_then_remove_account_witness:
  "fst (removeAccount (snd (addAccount (fresh_world open_storage) alice)) alice) = Inr () \<and>
   map_of (accounts (nostrSecretStatefull (snd (addAccount (fresh_world open_storage) alice))))
     (npub alice) = Some alice \<and>
   npub alice \<notin> fst ` set (accounts (nostrSecretStatefull
      (snd (removeAccount (snd (addAccount (fresh_world open_storage) alice)) alice)))) \<and>
   getItem (localStorage
      (snd (removeAccount (snd (addAccount (fresh_world open_storage) alice)) alice))) accounts_key =
     Some (JSON_stringify (accounts (nostrSecretStatefull
      (snd (removeAccount (snd (addAccount (fresh_world open_storage) alice)) alice)))))"
proof -
  let ?w1 = "snd (addAccount (fresh_world open_storage) alice)"
  have returned: "fst (removeAccount ?w1 alice) = Inr ()"
    unfolding fresh_world_open
    by (simp add: addAccount_def removeAccount_def update_def Let_def setItem_def open_storage_def)
  have added: "addAccount (fresh_world open_storage) alice =
      (fst (addAccount (fresh_world open_storage) alice), ?w1)"
    by simp
  have removed: "removeAccount ?w1 alice = (fst (removeAccount ?w1 alice), snd (removeAccount ?w1 alice))"
    by simp
  show ?thesis
    using add_then_remove_account[OF added removed] returned by blast
qed

text \<open>
  C8. At construction and after every completed \<^verbatim>\<open>addAccount\<close> or
  \<^verbatim>\<open>removeAccount\<close>, the value the accounts stream holds, which is what a new
  subscriber receives at once, is the list of the registry's values. At construction
  the registry is the parsed blob of the durable storage, so a subscriber then receives
  the seeded list, which is not empty when the blob has a member.
\<close>

theorem accounts_stream_replays_current_list:
  "subscribe (accountsSubject (initialise st)) = Object_values (accounts (initialise st)) \<and>
   accounts (initialise st) =
     JSON_parse (case getItem st accounts_key of None \<Rightarrow> [] | Some blob \<Rightarrow> blob) \<and>
   constructor st None = (initialise st, Some (initialise st)) \<and>
   (getItem st accounts_key = Some blob \<and> blob \<noteq> [] \<longrightarrow>
      subscribe (accountsSubject (initialise st)) \<noteq> []) \<and>
   (fst (addAccount w a) = Inr () \<longrightarrow>
      subscribe (accountsSubject (nostrSecretStatefull (snd (addAccount w a)))) =
      Object_values (accounts (nostrSecretStatefull (snd (addAccount w a))))) \<and>
   (fst (removeAccount w a) = Inr () \<longrightarrow>
      subscribe (accountsSubject (nostrSecretStatefull (snd (removeAccount w a)))) =
      Object_values (accounts (nostrSecretStatefull (snd (removeAccount w a)))))"
proof -
  have seeded: "subscribe (accountsSubject (initialise st)) \<noteq> []"
    if "getItem st accounts_key = Some blob" and "blob \<noteq> []"
    using that JSON_parse_nonempty[of blob]
    by (simp add: initialise_def Let_def subscribe_def new_BehaviorSubject_def Object_values_def)
  have rest: "subscribe (accountsSubject (initialise st)) = Object_values (accounts (initialise st)) \<and>
      accounts (initialise st) =
        JSON_parse (case getItem st accounts_key of None \<Rightarrow> [] | Some blob \<Rightarrow> blob) \<and>
      constructor st None = (initialise st, Some (initialise st))"
    by (simp add: initialise_def constructor_def Let_def subscribe_def new_BehaviorSubject_def)
  have added: "subscribe (accountsSubject (nostrSecretStatefull (snd (addAccount w a)))) =
      Object_values (accounts (nostrSecretStatefull (snd (addAccount w a))))"
    if "fst (addAccount w a) = Inr ()"
    using that by (simp add: subscribe_def addAccount_def update_Inr_latest update_accounts)
  have removed: "subscribe (accountsSubject (nostrSecretStatefull (snd (removeAccount w a)))) =
      Object_values (accounts (nostrSecretStatefull (snd (removeAccount w a))))"
    if "fst (removeAccount w a) = Inr ()"
    using that by (simp add: subscribe_def removeAccount_def update_Inr_latest update_accounts)
  show ?thesis using seeded rest added removed by blast
qed

text \<open>
  An instance: a storage seeded with \<open>alice\<close>; a subscriber receives \<open>[alice]\<close> before
  any mutation, and the empty list after \<open>alice\<close> has been removed.
\<close>

theorem accounts_stream_replays_current_list_witness:
  "getItem seeded_storage accounts_key = Some [(''npub1alice'', alice)] \<and>
   subscribe (accountsSubject (fst (constructor seeded_storage None))) = [alice] \<and>
   fst (addAccount (fresh_world seeded_storage) alice) = Inr () \<and>
   subscribe (accountsSubject (nostrSecretStatefull (snd (addAccount (fresh_world seeded_storage) alice)))) =
     Object_values (accounts (nostrSecretStatefull (snd (addAccount (fresh_world seeded_storage) alice)))) \<and>
   fst (removeAccount (fresh_world seeded_storage) alice) = Inr () \<and>
   subscribe (accountsSubject (nostrSecretStatefull (snd (removeAccount (fresh_world seeded_storage) alice)))) =
     Object_values (accounts (nostrSecretStatefull (snd (removeAccount (fresh_world seeded_storage) alice))))"
proof -
  have blob: "getItem seeded_storage accounts_key = Some [(''npub1alice'', alice)]"
    by (simp add: getItem_def seeded_storage_def)
  have nonempty: "[(''npub1alice'', alice)] \<noteq> []"
    by simp
  have parsed: "Object_values (JSON_parse [(''npub1alice'', alice)]) = [alice]"
    by (simp add: Object_values_def JSON_parse_def)
  have world: "fresh_world seeded_storage =
     \<lparr>localStorage = seeded_storage,
      nostrSecretStatefull =
        \<lparr>accounts = [(''npub1alice'', alice)], accountsSubject = \<lparr>latest = [alice], published = []\<rparr>\<rparr>,
      profiles = Map.empty, fetches = []\<rparr>"
    by (simp add: fresh_world_def constructor_def initialise_def Let_def blob JSON_parse_def
        new_BehaviorSubject_def Object_values_def)
  have added: "fst (addAccount (fresh_world seeded_storage) alice) = Inr ()"
    unfolding world by (simp add: addAccount_def update_def Let_def setItem_def seeded_storage_def)
  have removed: "fst (removeAccount (fresh_world seeded_storage) alice) = Inr ()"
    unfolding world by (simp add: removeAccount_def update_def Let_def setItem_def seeded_storage_def)
  note inst = accounts_stream_replays_current_list
      [where st = seeded_storage and blob = "[(''npub1alice'', alice)]"
         and w = "fresh_world seeded_storage" and a = alice]
  have "subscribe (accountsSubject (fst (constructor seeded_storage None))) = [alice]"
    using inst blob parsed by simp
  then show ?thesis using inst blob added removed by blast
qed

section \<open>The profile orchestrator\<close>

subsection \<open>De-duplication\<close>

lemma foldl_Set_add_distinct: "distinct acc \<Longrightarrow> distinct (foldl Set_add acc xs)"
  by (induction xs arbitrary: acc) (auto simp: Set_add_def)

lemma foldl_Set_add_set: "set (foldl Set_add acc xs) = set acc \<union> set xs"
  by (induction xs arbitrary: acc) (auto simp: Set_add_def)

lemma distinct_new_Set: "distinct (new_Set xs)"
  by (simp add: new_Set_def foldl_Set_add_distinct)

lemma set_new_Set: "set (new_Set xs) = set xs"
  by (simp add: new_Set_def foldl_Set_add_set)

lemma filter_eager_Nil:
  "(\<forall>n \<in> set xs. isEagerLoaded w n) \<Longrightarrow> filter (\<lambda>n. \<not> isEagerLoaded w n) (new_Set xs) = []"
  by (simp add: filter_empty_conv set_new_Set)

subsection \<open>What the cache lookups and the reload leave alone\<close>

lemma ProfileCache_get_frame:
  "fetches (snd (ProfileCache_get deps w n)) = fetches w \<and>
   localStorage (snd (ProfileCache_get deps w n)) = localStorage w \<and>
   nostrSecretStatefull (snd (ProfileCache_get deps w n)) = nostrSecretStatefull w"
  by (simp add: ProfileCache_get_def Let_def split: option.splits miss_policy.splits)

lemma map_get_frame:
  "fetches (snd (map_get deps w ns)) = fetches w \<and>
   localStorage (snd (map_get deps w ns)) = localStorage w \<and>
   nostrSecretStatefull (snd (map_get deps w ns)) = nostrSecretStatefull w"
proof (induction ns arbitrary: w)
  case Nil
  show ?case by simp
next
  case (Cons n ns)
  obtain r w1 where g: "ProfileCache_get deps w n = (r, w1)"
    by (cases "ProfileCache_get deps w n")
  have f1: "fetches w1 = fetches w \<and> localStorage w1 = localStorage w \<and>
      nostrSecretStatefull w1 = nostrSecretStatefull w"
    using ProfileCache_get_frame[of deps w n] g by simp
  show ?case
  proof (cases r)
    case (Inl e)
    then show ?thesis using g f1 by simp
  next
    case (Inr p)
    obtain r2 w2 where m: "map_get deps w1 ns = (r2, w2)"
      by (cases "map_get deps w1 ns")
    have "fetches w2 = fetches w1 \<and> localStorage w2 = localStorage w1 \<and>
        nostrSecretStatefull w2 = nostrSecretStatefull w1"
      using Cons.IH[of w1] m by simp
    then show ?thesis using g Inr m f1 by (cases r2) simp_all
  qed
qed

lemma map_get_length: "map_get deps w ns = (Inr ps, w1) \<Longrightarrow> length ps = length ns"
proof (induction ns arbitrary: w ps w1)
  case Nil
  then show ?case by simp
next
  case (Cons n ns)
  then show ?case
    by (cases "ProfileCache_get deps w n") (fastforce split: sum.splits prod.splits)
qed

lemma forceProfileReload_frame:
  "fetches (snd (forceProfileReload deps w ns)) = fetches w @ [ns] \<and>
   localStorage (snd (forceProfileReload deps w ns)) = localStorage w \<and>
   nostrSecretStatefull (snd (forceProfileReload deps w ns)) = nostrSecretStatefull w"
  by (simp add: forceProfileReload_def Let_def map_get_frame ProfileCache_cache_def split: sum.splits)

lemma forceProfileReload_rejected:
  "profileApi_loadProfiles deps ns = Inl e \<Longrightarrow>
   forceProfileReload deps w ns = (Inl e, w\<lparr>fetches := fetches w @ [ns]\<rparr>)"
  by (simp add: forceProfileReload_def Let_def)

lemma forceProfileReload_Nil:
  "fst (forceProfileReload deps w []) = map_sum id (\<lambda>_. []) (profileApi_loadProfiles deps [])"
  by (simp add: forceProfileReload_def Let_def split: sum.splits)

lemma loadProfiles_frame:
  "localStorage (snd (loadProfiles deps w npubss)) = localStorage w \<and>
   nostrSecretStatefull (snd (loadProfiles deps w npubss)) = nostrSecretStatefull w"
  by (simp add: loadProfiles_def Let_def forceProfileReload_frame)

lemma loadProfile_frame:
  "localStorage (snd (loadProfile deps w n)) = localStorage w \<and>
   nostrSecretStatefull (snd (loadProfile deps w n)) = nostrSecretStatefull w"
  using loadProfiles_frame[of deps w "[[n]]"]
  by (cases "loadProfiles deps w [[n]]") (simp add: loadProfile_def split: sum.splits)

lemma ProfileProxy_load_frame:
  "localStorage (snd (ProfileProxy_load deps w arg)) = localStorage w \<and>
   nostrSecretStatefull (snd (ProfileProxy_load deps w arg)) = nostrSecretStatefull w"
  by (cases arg) (simp_all add: loadProfile_frame loadProfiles_frame split: option.splits)

subsection \<open>The loaded profile is the cache's object\<close>

lemma ProfileCache_get_entry:
  "ProfileCache_get deps w n = (Inr p, w1) \<Longrightarrow> profiles w1 n = Some p"
  by (auto simp: ProfileCache_get_def Let_def split: option.splits miss_policy.splits)

lemma map_get_single_entry:
  "map_get deps w [n] = (Inr ps, w1) \<Longrightarrow> \<exists>p. ps = [p] \<and> profiles w1 n = Some p"
  by (cases "ProfileCache_get deps w n") (auto split: sum.splits dest: ProfileCache_get_entry)

lemma loadProfile_entry:
  assumes "loadProfile deps w n = (Inr (Some p), w1)"
  shows "profiles w1 n = Some p"
proof -
  obtain r w0 where lp: "loadProfiles deps w [[n]] = (r, w0)"
    by (cases "loadProfiles deps w [[n]]")
  from assms lp obtain ps where r: "r = Inr ps" and w0: "w0 = w1" and ps: "ps \<noteq> []" "hd ps = p"
    by (auto simp: loadProfile_def split: sum.splits list.splits)
  show ?thesis
  proof (cases "isEagerLoaded w n")
    case True
    then have "fst (loadProfiles deps w [[n]]) = map_sum id (\<lambda>_. []) (profileApi_loadProfiles deps [])"
      by (simp add: loadProfiles_def Let_def new_Set_def Set_add_def forceProfileReload_Nil)
    with lp r ps show ?thesis by (cases "profileApi_loadProfiles deps []") auto
  next
    case False
    then have "loadProfiles deps w [[n]] = forceProfileReload deps w [n]"
      by (simp add: loadProfiles_def Let_def new_Set_def Set_add_def)
    with lp r w0 have "forceProfileReload deps w [n] = (Inr ps, w1)" by simp
    then obtain w2 where "map_get deps w2 [n] = (Inr ps, w1)"
      by (auto simp: forceProfileReload_def Let_def split: sum.splits)
    from map_get_single_entry[OF this] ps show ?thesis by auto
  qed
qed

lemma load_Npub_entry:
  assumes "ProfileProxy_load deps w (Npub n) = (Inr (Profile (Some p)), w1)"
  shows "profiles w1 n = Some p"
proof -
  obtain r w0 where lp: "loadProfile deps w n = (r, w0)"
    by (cases "loadProfile deps w n")
  show ?thesis
  proof (cases r)
    case (Inl e)
    with assms lp show ?thesis by (auto split: option.splits if_splits)
  next
    case (Inr q)
    with assms lp show ?thesis by (auto split: option.splits if_splits dest: loadProfile_entry)
  qed
qed

subsection \<open>Eagerly loaded identifiers\<close>

text \<open>
  The single-identifier path of \<^verbatim>\<open>load\<close> answers an \<open>EAGER_LOADED\<close> identifier from
  the cache: no fetch, no change of state, the cached profile as it is.
\<close>

lemma load_Npub_eager:
  "isEagerLoaded w x \<Longrightarrow> ProfileProxy_load deps w (Npub x) = (Inr (Profile (profiles w x)), w)"
  by (auto simp: isEagerLoaded_def split: option.splits)

text \<open>No call of \<^verbatim>\<open>loadProfiles\<close> hands an \<open>EAGER_LOADED\<close> identifier to the remote source.\<close>

lemma loadProfiles_never_fetches_eager:
  "isEagerLoaded w x \<Longrightarrow> fetches (snd (loadProfiles deps w npubss)) = fetches w @ [ids] \<Longrightarrow>
   x \<notin> set ids"
  by (auto simp: loadProfiles_def Let_def forceProfileReload_frame)

text \<open>The resolved array has one profile per identifier that was fetched, and no more.\<close>

lemma loadProfiles_length:
  "loadProfiles deps w npubss = (Inr ps, w1) \<Longrightarrow>
   length ps = length (filter (\<lambda>n. \<not> isEagerLoaded w n) (new_Set (concat npubss)))"
  by (auto simp: loadProfiles_def forceProfileReload_def Let_def split: sum.splits
      dest: map_get_length)

subsection \<open>The evaluated states\<close>

lemma p1_loaded_eq:
  "p1_loaded =
     \<lparr>localStorage = open_storage,
      nostrSecretStatefull = \<lparr>accounts = [], accountsSubject = \<lparr>latest = [], published = []\<rparr>\<rparr>,
      profiles = [''p1'' \<mapsto>
        \<lparr>profile_npub = ''p1'', load = EAGER_LOADED, display = ''fetched'', user = None\<rparr>],
      fetches = [[''p1'']]\<rparr>"
  unfolding p1_loaded_def fresh_world_open
  by (simp add: loadProfiles_def forceProfileReload_def Let_def new_Set_def Set_add_def
      isEagerLoaded_def answering_def ProfileCache_cache_def cache_event_def fetched_event_def
      ProfileCache_get_def)

lemma p1_loaded_eager: "isEagerLoaded p1_loaded ''p1''"
  by (simp add: p1_loaded_eq isEagerLoaded_def)

text \<open>
  The example of the spec: with an empty cache, two overlapping batches are fetched as
  \<open>[p1, p2, p3]\<close> in one request and resolve to three profiles in that order.
\<close>

lemma loadProfiles_empty_cache_example:
  "fetches (snd (loadProfiles answering (fresh_world open_storage)
      [[''p1'', ''p2''], [''p2'', ''p3'']])) = [[''p1'', ''p2'', ''p3'']] \<and>
   map_sum id (map profile_npub) (fst (loadProfiles answering (fresh_world open_storage)
      [[''p1'', ''p2''], [''p2'', ''p3'']])) = Inr [''p1'', ''p2'', ''p3'']"
  unfolding fresh_world_open
  by (simp add: loadProfiles_def forceProfileReload_def Let_def new_Set_def Set_add_def
      isEagerLoaded_def answering_def ProfileCache_cache_def cache_event_def fetched_event_def
      ProfileCache_get_def)

subsection \<open>Claims about the orchestrator\<close>

text \<open>
  C1. The claim: \<^verbatim>\<open>loadProfiles\<close> resolves to one profile per identifier of the
  de-duplicated union, in union order, the \<open>EAGER_LOADED\<close> ones served from the cache.
  The code resolves to \<^verbatim>\<open>forceProfileReload(notLoaded)\<close>, which maps over the
  filtered list only: once \<open>p1\<close> is \<open>EAGER_LOADED\<close>, \<^verbatim>\<open>loadProfiles(['p1', 'p2'])\<close>
  resolves to the one profile of \<open>p2\<close>, and the cached profile of \<open>p1\<close> is missing
  from the result.
\<close>

theorem loadProfiles_omits_eager_loaded:
  "isEagerLoaded p1_loaded ''p1'' \<and>
   fst (loadProfiles answering p1_loaded [[''p1'', ''p2'']]) =
     Inr [\<lparr>profile_npub = ''p2'', load = EAGER_LOADED, display = ''fetched'', user = None\<rparr>]"
proof -
  have "fst (loadProfiles answering p1_loaded [[''p1'', ''p2'']]) =
     Inr [\<lparr>profile_npub = ''p2'', load = EAGER_LOADED, display = ''fetched'', user = None\<rparr>]"
    unfolding p1_loaded_eq
    by (simp add: loadProfiles_def forceProfileReload_def Let_def new_Set_def Set_add_def
        isEagerLoaded_def answering_def ProfileCache_cache_def cache_event_def fetched_event_def
        ProfileCache_get_def)
  then show ?thesis using p1_loaded_eager by simp
qed

text \<open>
  C2. Every call of \<^verbatim>\<open>loadProfiles\<close> hands exactly one identifier list to the remote
  source; the list has no repetition and holds the requested identifiers that are not
  \<open>EAGER_LOADED\<close>. In particular \<^verbatim>\<open>loadProfiles([X, X])\<close> requests \<open>X\<close> once (and
  not at all when \<open>X\<close> is \<open>EAGER_LOADED\<close>).
\<close>

theorem loadProfiles_fetches_each_identifier_once:
  "(\<exists>ids. fetches (snd (loadProfiles deps w npubss)) = fetches w @ [ids] \<and> distinct ids \<and>
      set ids = {n. n \<in> set (concat npubss) \<and> \<not> isEagerLoaded w n}) \<and>
   fetches (snd (loadProfiles deps w [[x, x]])) =
     fetches w @ [if isEagerLoaded w x then [] else [x]]"
proof -
  have twice: "fetches (snd (loadProfiles deps w [[x, x]])) =
      fetches w @ [if isEagerLoaded w x then [] else [x]]"
    by (simp add: loadProfiles_def Let_def forceProfileReload_frame new_Set_def Set_add_def)
  have "\<exists>ids. fetches (snd (loadProfiles deps w npubss)) = fetches w @ [ids] \<and> distinct ids \<and>
      set ids = {n. n \<in> set (concat npubss) \<and> \<not> isEagerLoaded w n}"
    by (rule exI[of _ "filter (\<lambda>n. \<not> isEagerLoaded w n) (new_Set (concat npubss))"])
       (simp add: loadProfiles_def Let_def forceProfileReload_frame distinct_new_Set set_new_Set
          del: set_concat)
  with twice show ?thesis by blast
qed

text \<open>
  C3. The claim: for an \<open>EAGER_LOADED\<close> identifier \<open>X\<close>, a later \<^verbatim>\<open>load\<close> of \<open>X\<close>,
  alone or in a batch, hands \<open>X\<close> to no fetch and returns the cached profile of \<open>X\<close>.
  The single-identifier path does so (\<open>load_Npub_eager\<close>) and no path fetches \<open>X\<close>
  (\<open>loadProfiles_never_fetches_eager\<close>), but the batch path does not return the cached
  profile: with \<open>p1\<close> \<open>EAGER_LOADED\<close> and cached, \<^verbatim>\<open>load(['p1'])\<close> resolves to the
  empty array.
\<close>

theorem load_batch_omits_eager_loaded:
  "isEagerLoaded p1_loaded ''p1'' \<and>
   profiles p1_loaded ''p1'' =
     Some \<lparr>profile_npub = ''p1'', load = EAGER_LOADED, display = ''fetched'', user = None\<rparr> \<and>
   fst (ProfileProxy_load answering p1_loaded (Npubs [''p1''])) = Inr (Profiles [])"
proof -
  have "fst (ProfileProxy_load answering p1_loaded (Npubs [''p1''])) = Inr (Profiles [])"
    unfolding p1_loaded_eq
    by (simp add: loadProfiles_def forceProfileReload_def Let_def new_Set_def Set_add_def
        isEagerLoaded_def answering_def ProfileCache_cache_def)
  moreover have "profiles p1_loaded ''p1'' =
     Some \<lparr>profile_npub = ''p1'', load = EAGER_LOADED, display = ''fetched'', user = None\<rparr>"
    by (simp add: p1_loaded_eq)
  ultimately show ?thesis using p1_loaded_eager by simp
qed

text \<open>
  C4. If the remote fetch inside \<^verbatim>\<open>forceProfileReload\<close> or \<^verbatim>\<open>loadProfiles\<close> is
  rejected, the call fails with that error and the profile cache is the one from before
  the call (nothing is cached, absent identifiers stay absent, \<open>EAGER_LOADED\<close> entries
  stay as they are); the store and the storage are untouched as well. Only the log of
  requests grows.
\<close>

theorem rejected_fetch_leaves_cache_untouched:
  "(profileApi_loadProfiles deps npubs = Inl e \<longrightarrow>
      forceProfileReload deps w npubs = (Inl e, w\<lparr>fetches := fetches w @ [npubs]\<rparr>)) \<and>
   (profileApi_loadProfiles deps
        (filter (\<lambda>n. \<not> isEagerLoaded w n) (new_Set (concat npubss))) = Inl e \<longrightarrow>
      fst (loadProfiles deps w npubss) = Inl e \<and>
      profiles (snd (loadProfiles deps w npubss)) = profiles w \<and>
      nostrSecretStatefull (snd (loadProfiles deps w npubss)) = nostrSecretStatefull w \<and>
      localStorage (snd (loadProfiles deps w npubss)) = localStorage w)"
  by (simp add: loadProfiles_def Let_def forceProfileReload_rejected)

text \<open>
  An instance: the remote source is offline, \<open>p1\<close> is cached and \<open>p4\<close> is requested;
  \<open>p4\<close> stays absent.
\<close>

theorem rejected_fetch_leaves_cache_untouched_witness:
  "profileApi_loadProfiles offline [''p4''] = Inl (Rejected ''offline'') \<and>
   forceProfileReload offline p1_loaded [''p4''] =
     (Inl (Rejected ''offline''), p1_loaded\<lparr>fetches := fetches p1_loaded @ [[''p4'']]\<rparr>) \<and>
   fst (loadProfiles offline p1_loaded [[''p4'']]) = Inl (Rejected ''offline'') \<and>
   profiles (snd (loadProfiles offline p1_loaded [[''p4'']])) = profiles p1_loaded \<and>
   profiles (snd (loadProfiles offline p1_loaded [[''p4'']])) ''p4'' = None"
proof -
  have direct: "profileApi_loadProfiles offline [''p4''] = Inl (Rejected ''offline'')"
    by (simp add: offline_def)
  have reduced: "profileApi_loadProfiles offline
      (filter (\<lambda>n. \<not> isEagerLoaded p1_loaded n) (new_Set (concat [[''p4'']]))) =
      Inl (Rejected ''offline'')"
    by (simp add: offline_def)
  have absent: "profiles p1_loaded ''p4'' = None"
    by (simp add: p1_loaded_eq)
  show ?thesis
    using rejected_fetch_leaves_cache_untouched
      [where deps = offline and npubs = "[''p4'']" and e = "Rejected ''offline''"
         and w = p1_loaded and npubss = "[[''p4'']]"]
      direct reduced absent
    by metis
qed

text \<open>
  C9. Every call of \<^verbatim>\<open>loadProfiles\<close> issues exactly one remote fetch. When every
  requested identifier is \<open>EAGER_LOADED\<close>, the remote source is called with the empty
  list and the call resolves to the empty array (or fails with the remote source's
  error); so \<^verbatim>\<open>load([X])\<close> and \<^verbatim>\<open>loadProfile(X)\<close> for an \<open>EAGER_LOADED\<close> \<open>X\<close> do
  not return the cached profile of \<open>X\<close>: they resolve to the empty array and to
  \<^verbatim>\<open>undefined\<close>.
\<close>

theorem loadProfiles_always_fetches_once:
  "fetches (snd (loadProfiles deps w npubss)) =
     fetches w @ [filter (\<lambda>n. \<not> isEagerLoaded w n) (new_Set (concat npubss))] \<and>
   ((\<forall>n \<in> set (concat npubss). isEagerLoaded w n) \<longrightarrow>
      fetches (snd (loadProfiles deps w npubss)) = fetches w @ [[]] \<and>
      fst (loadProfiles deps w npubss) = map_sum id (\<lambda>_. []) (profileApi_loadProfiles deps [])) \<and>
   (isEagerLoaded w x \<longrightarrow>
      fst (ProfileProxy_load deps w (Npubs [x])) =
        map_sum id (\<lambda>_. Profiles []) (profileApi_loadProfiles deps []) \<and>
      fst (loadProfile deps w x) = map_sum id (\<lambda>_. None) (profileApi_loadProfiles deps []))"
proof -
  have one: "fetches (snd (loadProfiles deps w npubss)) =
     fetches w @ [filter (\<lambda>n. \<not> isEagerLoaded w n) (new_Set (concat npubss))]"
    by (simp add: loadProfiles_def Let_def forceProfileReload_frame)
  have all_eager: "fetches (snd (loadProfiles deps w npubss)) = fetches w @ [[]] \<and>
      fst (loadProfiles deps w npubss) = map_sum id (\<lambda>_. []) (profileApi_loadProfiles deps [])"
    if "\<forall>n \<in> set (concat npubss). isEagerLoaded w n"
    using filter_eager_Nil[OF that]
    by (simp add: loadProfiles_def Let_def forceProfileReload_frame forceProfileReload_Nil)
  have single: "fst (ProfileProxy_load deps w (Npubs [x])) =
        map_sum id (\<lambda>_. Profiles []) (profileApi_loadProfiles deps []) \<and>
      fst (loadProfile deps w x) = map_sum id (\<lambda>_. None) (profileApi_loadProfiles deps [])"
    if "isEagerLoaded w x"
  proof -
    have "fst (loadProfiles deps w [[x]]) = map_sum id (\<lambda>_. []) (profileApi_loadProfiles deps [])"
      using that
      by (simp add: loadProfiles_def Let_def new_Set_def Set_add_def forceProfileReload_Nil)
    then show ?thesis
      by (cases "loadProfiles deps w [[x]]"; cases "profileApi_loadProfiles deps []")
         (auto simp: loadProfile_def split: sum.splits)
  qed
  show ?thesis using one all_eager single by blast
qed

text \<open>An instance: \<open>p1\<close> is \<open>EAGER_LOADED\<close> and is requested again.\<close>

theorem loadProfiles_always_fetches_once_witness:
  "isEagerLoaded p1_loaded ''p1'' \<and>
   fetches (snd (loadProfiles answering p1_loaded [[''p1'']])) = fetches p1_loaded @ [[]] \<and>
   fst (loadProfiles answering p1_loaded [[''p1'']]) = Inr [] \<and>
   fst (ProfileProxy_load answering p1_loaded (Npubs [''p1''])) = Inr (Profiles []) \<and>
   fst (loadProfile answering p1_loaded ''p1'') = Inr None"
proof -
  have all_eager: "\<forall>n \<in> set (concat [[''p1'']]). isEagerLoaded p1_loaded n"
    using p1_loaded_eager by simp
  have remote: "profileApi_loadProfiles answering [] = Inr []"
    by (simp add: answering_def)
  note inst = loadProfiles_always_fetches_once
      [where deps = answering and w = p1_loaded and npubss = "[[''p1'']]" and x = "''p1''"]
  have batch: "fetches (snd (loadProfiles answering p1_loaded [[''p1'']])) = fetches p1_loaded @ [[]] \<and>
      fst (loadProfiles answering p1_loaded [[''p1'']]) =
        map_sum id (\<lambda>_. []) (profileApi_loadProfiles answering [])"
    using inst all_eager by blast
  have single: "fst (ProfileProxy_load answering p1_loaded (Npubs [''p1''])) =
        map_sum id (\<lambda>_. Profiles []) (profileApi_loadProfiles answering []) \<and>
      fst (loadProfile answering p1_loaded ''p1'') =
        map_sum id (\<lambda>_. None) (profileApi_loadProfiles answering [])"
    using inst p1_loaded_eager by blast
  show ?thesis using batch single p1_loaded_eager by (simp add: remote)
qed

text \<open>
  C10. Whenever \<^verbatim>\<open>loadAccount(rawSecret, pin)\<close> resolves, to an account or to
  \<^verbatim>\<open>null\<close>, the user handle built from the secret has been written into the cache's
  profile object of that user before the account creation was attempted: the encryption
  sees the profile with the handle, the cache keeps it afterwards (nothing undoes the
  write when the result is \<^verbatim>\<open>null\<close>), and the account store and the storage are the
  ones from before the call.
\<close>

theorem loadAccount_marks_cached_profile:
  assumes "new_NostrUser deps secret = Inr u"
    and "loadAccount deps w secret pin = (Inr account, w')"
  shows "\<exists>p0 w1.
           ProfileProxy_load deps w (Npub (nostrPublic u)) = (Inr (Profile (Some p0)), w1) \<and>
           profiles w1 (nostrPublic u) = Some p0 \<and>
           w' = w1\<lparr>profiles := (profiles w1)(nostrPublic u \<mapsto> p0\<lparr>user := Some u\<rparr>)\<rparr> \<and>
           profiles w' (nostrPublic u) = Some (p0\<lparr>user := Some u\<rparr>) \<and>
           account = encryptAccount deps (p0\<lparr>user := Some u\<rparr>) (Some pin) \<and>
           nostrSecretStatefull w' = nostrSecretStatefull w \<and>
           localStorage w' = localStorage w"
proof -
  obtain r w1 where ld: "ProfileProxy_load deps w (Npub (nostrPublic u)) = (r, w1)"
    by (cases "ProfileProxy_load deps w (Npub (nostrPublic u))")
  from assms ld obtain p0 where r: "r = Inr (Profile (Some p0))"
    by (auto simp: loadAccount_def split: sum.splits load_result.splits option.splits)
  from ld r have "ProfileProxy_load deps w (Npub (nostrPublic u)) = (Inr (Profile (Some p0)), w1)"
    by (simp only:)
  then have entry: "profiles w1 (nostrPublic u) = Some p0"
    by (rule load_Npub_entry)
  have fr: "localStorage w1 = localStorage w \<and> nostrSecretStatefull w1 = nostrSecretStatefull w"
    using ProfileProxy_load_frame[of deps w "Npub (nostrPublic u)"] ld by simp
  have w': "w' = w1\<lparr>profiles := (profiles w1)(nostrPublic u \<mapsto> p0\<lparr>user := Some u\<rparr>)\<rparr>"
    and acc: "account = encryptAccount deps (p0\<lparr>user := Some u\<rparr>) (Some pin)"
    using assms ld r by (simp_all add: loadAccount_def Let_def createAccount_def split: option.splits)
  show ?thesis using ld r entry fr by (simp add: w' acc)
qed

text \<open>
  An instance: the encryption produces no account, so the call resolves to
  \<^verbatim>\<open>null\<close>; the freshly loaded profile keeps the user handle.
\<close>

theorem loadAccount_marks_cached_profile_witness:
  "new_NostrUser answering ''s'' = Inr \<lparr>nsec = ''s'', nostrPublic = ''npub1s''\<rparr> \<and>
   fst (loadAccount answering (fresh_world open_storage) ''s'' ''1234'') = Inr None \<and>
   profiles (snd (loadAccount answering (fresh_world open_storage) ''s'' ''1234'')) ''npub1s'' =
     Some \<lparr>profile_npub = ''npub1s'', load = EAGER_LOADED, display = ''fetched'',
           user = Some \<lparr>nsec = ''s'', nostrPublic = ''npub1s''\<rparr>\<rparr> \<and>
   nostrSecretStatefull (snd (loadAccount answering (fresh_world open_storage) ''s'' ''1234'')) =
     nostrSecretStatefull (fresh_world open_storage)"
proof -
  let ?u = "\<lparr>nsec = ''s'', nostrPublic = ''npub1s''\<rparr>"
  let ?call = "loadAccount answering (fresh_world open_storage) ''s'' ''1234''"
  have handle: "new_NostrUser answering ''s'' = Inr ?u"
    by (simp add: answering_def)
  have loaded: "fst (ProfileProxy_load answering (fresh_world open_storage) (Npub ''npub1s'')) =
      Inr (Profile (Some \<lparr>profile_npub = ''npub1s'', load = EAGER_LOADED, display = ''fetched'',
        user = None\<rparr>))"
    unfolding fresh_world_open
    by (simp add: loadProfile_def loadProfiles_def forceProfileReload_def Let_def new_Set_def
        Set_add_def isEagerLoaded_def answering_def ProfileCache_cache_def cache_event_def
        fetched_event_def ProfileCache_get_def)
  have resolved: "fst ?call = Inr None"
    using loaded
    by (cases "ProfileProxy_load answering (fresh_world open_storage) (Npub ''npub1s'')")
       (simp add: loadAccount_def Let_def createAccount_def answering_def)
  then have call: "?call = (Inr None, snd ?call)"
    by (cases ?call) simp
  from loadAccount_marks_cached_profile[OF handle call] obtain p0 w1 where
    ld: "ProfileProxy_load answering (fresh_world open_storage) (Npub (nostrPublic ?u)) =
          (Inr (Profile (Some p0)), w1)"
    and kept: "profiles (snd ?call) (nostrPublic ?u) = Some (p0\<lparr>user := Some ?u\<rparr>)"
    and store: "nostrSecretStatefull (snd ?call) = nostrSecretStatefull (fresh_world open_storage)"
    by blast
  from ld loaded have "p0 = \<lparr>profile_npub = ''npub1s'', load = EAGER_LOADED, display = ''fetched'',
        user = None\<rparr>"
    by simp
  with kept have "profiles (snd ?call) ''npub1s'' =
     Some \<lparr>profile_npub = ''npub1s'', load = EAGER_LOADED, display = ''fetched'', user = Some ?u\<rparr>"
    by simp
  with handle resolved store show ?thesis by simp
qed

end
